theory Spec2Isabelle
  imports Complex_Main "HOL-Library.Char_ord" "HOL-Library.List_Lexorder"
    "HOL-Library.Multiset"
begin

section \<open>Strings\<close>

text \<open>
  A JavaScript string is modelled as a \<^typ>\<open>string\<close>: a list of characters, each
  standing for one code unit in the range 0..255. The quote character and the line feed
  are written by their codes.
\<close>

abbreviation DQ :: char where
  "DQ \<equiv> CHR 0x22"

abbreviation LF :: char where
  "LF \<equiv> CHR 0x0A"

text \<open>\<^verbatim>\<open>value.includes(c)\<close> for a one-character needle.\<close>

definition str_includes :: "string \<Rightarrow> char \<Rightarrow> bool" where
  "str_includes v c = (c \<in> set v)"

text \<open>\<^verbatim>\<open>value.replace(/"/g, '""')\<close>: every quote character is doubled.\<close>

fun replace_quotes :: "string \<Rightarrow> string" where
  "replace_quotes [] = []"
| "replace_quotes (c # cs) =
     (if c = DQ then DQ # DQ # replace_quotes cs else c # replace_quotes cs)"

text \<open>\<^verbatim>\<open>cells.join(delimiter)\<close>.\<close>

fun join :: "string \<Rightarrow> string list \<Rightarrow> string" where
  "join d [] = []"
| "join d [x] = x"
| "join d (x # y # ys) = x @ d @ join d (y # ys)"

text \<open>
  White space as \<^verbatim>\<open>String.prototype.trim\<close>, \<^verbatim>\<open>Number\<close> and the regular
  expression class \<^verbatim>\<open>\s\<close> see it, among the code units below 256: tab, line feed,
  vertical tab, form feed, carriage return, space and no-break space.
\<close>

definition isWs :: "char \<Rightarrow> bool" where
  "isWs c = (c \<in> set [CHR 0x09, CHR 0x0A, CHR 0x0B, CHR 0x0C, CHR 0x0D, CHR 0x20, CHR 0xA0])"

definition trim :: "string \<Rightarrow> string" where
  "trim s = rev (dropWhile isWs (rev (dropWhile isWs s)))"

text \<open>\<^verbatim>\<open>value.split(',')\<close>: the pieces between the separators, at least one piece.\<close>

fun split_on :: "char \<Rightarrow> string \<Rightarrow> string list" where
  "split_on d [] = [[]]"
| "split_on d (c # cs) =
     (if c = d then [] # split_on d cs
      else (case split_on d cs of
              [] \<Rightarrow> [[c]]
            | p # ps \<Rightarrow> (c # p) # ps))"

definition isDigit :: "char \<Rightarrow> bool" where
  "isDigit c = (c \<in> set ''0123456789'')"

definition digit_val :: "char \<Rightarrow> int" where
  "digit_val c = of_char c - 48"

definition digits_val :: "string \<Rightarrow> int" where
  "digits_val ds = foldl (\<lambda>a c. 10 * a + digit_val c) 0 ds"



section \<open>Export: escaping (part 007 and part 010, the same text in both)\<close>

text \<open>
  \<^verbatim>\<open>
  function escapeCsvValue(value: string): string {
    if (value.includes(',') || value.includes('"') || value.includes('\n')) {
      return `"${value.replace(/"/g, '""')}"`;
    }
    return value;
  }
  \<close>
  The function takes the value only; the configured delimiter is not among its
  arguments.
\<close>

definition escapeCsvValue :: "string \<Rightarrow> string" where
  "escapeCsvValue v =
     (if str_includes v CHR '','' \<or> str_includes v DQ \<or> str_includes v LF
      then [DQ] @ replace_quotes v @ [DQ]
      else v)"

section \<open>Export: the data read back from the store\<close>

datatype response_status = NEW | READ | FLAGGED | ARCHIVED

fun status_text :: "response_status \<Rightarrow> string" where
  "status_text NEW = ''NEW''"
| "status_text READ = ''READ''"
| "status_text FLAGGED = ''FLAGGED''"
| "status_text ARCHIVED = ''ARCHIVED''"

datatype field_type =
  SHORT_TEXT | LONG_TEXT | EMAIL | PHONE | NUMBER | URL | DATE | DROPDOWN | RADIO
  | CHECKBOX | RATING | FILE_UPLOAD | SECTION


text \<open>
  One element of \<^verbatim>\<open>findMany\<close>'s result with its includes: the response, the
  selected columns of its form (cross-form export only) and its field values, each with
  the selected columns of its field. The row cells are declared \<^verbatim>\<open>string[]\<close>, so the
  submission time is the text that is pushed into the row.
\<close>

record field_ref =
  fld_id :: string
  fld_type :: field_type
  fld_label :: string

record export_value =
  ev_fieldId :: string
  ev_value :: string
  ev_field :: field_ref

record form_ref =
  frm_id :: string
  frm_title :: string

record export_response =
  er_id :: string
  er_form :: form_ref
  er_respondentEmail :: "string option"
  er_status :: response_status
  er_submittedAt :: string
  er_ipAddress :: "string option"
  er_fields :: "export_value list"

text \<open>\<^verbatim>\<open>x || ''\<close> on a string that may be null or undefined.\<close>

fun or_empty :: "string option \<Rightarrow> string" where
  "or_empty None = ''''"
| "or_empty (Some s) = s"

section \<open>Export across forms (part 007)\<close>

text \<open>
  \<^verbatim>\<open>new Set\<close> filled label by label, \<^verbatim>\<open>Array.from(...).sort()\<close>: the distinct
  labels in the order of their code units.
\<close>

definition sortedFieldLabels :: "export_response list \<Rightarrow> string list" where
  "sortedFieldLabels responses =
     sort (remdups (concat (map (\<lambda>r. map (\<lambda>f. fld_label (ev_field f)) (er_fields r)) responses)))"

text \<open>The \<^verbatim>\<open>Map\<close> from label to value of one response: a later entry replaces an earlier.\<close>

definition labelValueMap :: "export_value list \<Rightarrow> (string \<rightharpoonup> string)" where
  "labelValueMap fs = fold (\<lambda>f m. m(fld_label (ev_field f) \<mapsto> ev_value f)) fs Map.empty"

definition csvHeaders :: "bool \<Rightarrow> string list \<Rightarrow> string list" where
  "csvHeaders includeMetadata labels =
     (if includeMetadata
      then [''Response ID'', ''Form ID'', ''Form Title'', ''Respondent Email'', ''Status'',
            ''Submitted At'', ''IP Address'']
      else []) @ labels"

text \<open>The cells of one row as pushed, before the final \<^verbatim>\<open>row.map(escapeCsvValue)\<close>.\<close>

definition csvRowCells :: "bool \<Rightarrow> string list \<Rightarrow> export_response \<Rightarrow> string list" where
  "csvRowCells includeMetadata labels r =
     (if includeMetadata
      then [er_id r, frm_id (er_form r), frm_title (er_form r), or_empty (er_respondentEmail r),
            status_text (er_status r), er_submittedAt r, or_empty (er_ipAddress r)]
      else [])
     @ map (\<lambda>label. escapeCsvValue (or_empty (labelValueMap (er_fields r) label))) labels"

definition csvRow :: "bool \<Rightarrow> string \<Rightarrow> string list \<Rightarrow> export_response \<Rightarrow> string" where
  "csvRow includeMetadata delimiter labels r =
     join delimiter (map escapeCsvValue (csvRowCells includeMetadata labels r))"

definition generateCsv :: "export_response list \<Rightarrow> bool \<Rightarrow> string \<Rightarrow> string" where
  "generateCsv responses includeMetadata delimiter =
     (if responses = [] then ''''
      else let labels = sortedFieldLabels responses
           in join [LF]
                (join delimiter (map escapeCsvValue (csvHeaders includeMetadata labels))
                 # map (csvRow includeMetadata delimiter labels) responses))"

datatype export_format = Csv | Excel

datatype date_range = D7 | D30 | D90 | Y1 | All


text \<open>
  The parsed query of an export request. The filters (form, status, date range, search)
  go into the store's query, whose result is an argument of the handlers below.
\<close>

record export_query =
  q_format :: export_format
  q_dateRange :: date_range
  q_includeMetadata :: bool
  q_fieldDelimiter :: string
  q_includeFieldTypes :: bool

datatype export_result =
  JsonError nat string
  | Attachment (contentType: string) (contentDisposition: string) (body: string)

text \<open>\<^verbatim>\<open>new Date().toISOString().split('T')[0]\<close> of a clock reading.\<close>

definition isoDay :: "string \<Rightarrow> string" where
  "isoDay t = hd (split_on CHR ''T'' t)"

text \<open>
  The handler of part 007 after its query: \<^verbatim>\<open>responses\<close> is what \<^verbatim>\<open>findMany\<close>
  returned, \<^verbatim>\<open>clock\<close> the reading of \<^verbatim>\<open>new Date()\<close> for the file name.
\<close>

definition GET_export :: "string \<Rightarrow> export_query \<Rightarrow> export_response list \<Rightarrow> export_result" where
  "GET_export clock q responses =
     (if length responses = 0
      then JsonError 404 ''No responses found for the specified criteria''
      else if q_format q = Csv
      then Attachment ''text/csv''
             (''attachment; filename='' @ [DQ] @ ''responses-'' @ isoDay clock @ ''.csv'' @ [DQ])
             (generateCsv responses (q_includeMetadata q) (q_fieldDelimiter q))
      else Attachment ''application/vnd.ms-excel''
             (''attachment; filename='' @ [DQ] @ ''responses-'' @ isoDay clock @ ''.xlsx'' @ [DQ])
             (generateCsv responses (q_includeMetadata q) '',''))"

section \<open>Export of one form (part 010)\<close>

text \<open>A field of the form, as the store keeps it.\<close>

record form_field =
  ff_id :: string
  ff_formId :: string
  ff_type :: field_type
  ff_label :: string
  ff_required :: bool
  ff_options :: "string list"
  ff_order :: int

text \<open>The \<^verbatim>\<open>Map\<close> from field identifier to value of one response.\<close>

definition idValueMap :: "export_value list \<Rightarrow> (string \<rightharpoonup> string)" where
  "idValueMap fs = fold (\<lambda>f m. m(ev_fieldId f \<mapsto> ev_value f)) fs Map.empty"


definition formCsvRowCells :: "export_query \<Rightarrow> form_field list \<Rightarrow> export_response \<Rightarrow> string list" where
  "formCsvRowCells options formFields r =
     (if q_includeMetadata options
      then [er_id r, or_empty (er_respondentEmail r), status_text (er_status r),
            er_submittedAt r, or_empty (er_ipAddress r)]
      else [])
     @ map (\<lambda>field. escapeCsvValue (or_empty (idValueMap (er_fields r) (ff_id field)))) formFields"

definition formCsvRow :: "export_query \<Rightarrow> form_field list \<Rightarrow> export_response \<Rightarrow> string" where
  "formCsvRow options formFields r =
     join (q_fieldDelimiter options) (map escapeCsvValue (formCsvRowCells options formFields r))"







section \<open>Re-splitting an exported row\<close>

text \<open>
  The reader a spreadsheet program applies to one row, used to compare what was exported
  with what is read back: cells are separated by the delimiter; a cell that starts with
  a quote runs to its closing quote, and a doubled quote inside it is one quote.
\<close>

datatype cell_mode = AtStart | Plain | Quoted

fun resplit :: "char \<Rightarrow> cell_mode \<Rightarrow> string \<Rightarrow> string \<Rightarrow> string list" where
  "resplit d m acc [] = [rev acc]"
| "resplit d AtStart acc (c # cs) =
     (if c = DQ then resplit d Quoted acc cs
      else if c = d then rev acc # resplit d AtStart [] cs
      else resplit d Plain (c # acc) cs)"
| "resplit d Plain acc (c # cs) =
     (if c = d then rev acc # resplit d AtStart [] cs
      else resplit d Plain (c # acc) cs)"
| "resplit d Quoted acc [c] = (if c = DQ then [rev acc] else [rev (c # acc)])"
| "resplit d Quoted acc (c # c' # cs) =
     (if c = DQ
      then (if c' = DQ then resplit d Quoted (DQ # acc) cs
            else resplit d Plain acc (c' # cs))
      else resplit d Quoted (c # acc) (c' # cs))"

definition resplit_row :: "char \<Rightarrow> string \<Rightarrow> string list" where
  "resplit_row d row = resplit d AtStart [] row"


section \<open>Submission: the field validators (submit route)\<close>

text \<open>
  The result of \<^verbatim>\<open>Number(value)\<close>: not a number, an infinity, or a finite number.
  \<open>Finite q\<close> stands for the double nearest to the exact value \<open>q\<close> of the literal;
  a literal whose nearest double would lie beyond the largest double is an infinity.
\<close>

datatype jsnum = NaN | PosInfinity | NegInfinity | Finite rat

definition isNaN :: "jsnum \<Rightarrow> bool" where
  "isNaN n = (n = NaN)"

fun negate :: "jsnum \<Rightarrow> jsnum" where
  "negate NaN = NaN"
| "negate PosInfinity = NegInfinity"
| "negate NegInfinity = PosInfinity"
| "negate (Finite q) = Finite (- q)"

text \<open>Halfway between the largest double and \<open>2 ^ 1024\<close>, rounding goes to infinity.\<close>

definition to_double :: "rat \<Rightarrow> jsnum" where
  "to_double q =
     (if 2 ^ 1024 - 2 ^ 970 \<le> q then PosInfinity
      else if q \<le> - (2 ^ 1024 - 2 ^ 970) then NegInfinity
      else Finite q)"

definition literal_value :: "int \<Rightarrow> int \<Rightarrow> rat" where
  "literal_value m e = (if 0 \<le> e then of_int m * 10 ^ nat e else of_int m / 10 ^ nat (- e))"

text \<open>\<^verbatim>\<open>ExponentPart\<close>, optional: \<^verbatim>\<open>e\<close> or \<^verbatim>\<open>E\<close>, an optional sign, digits.\<close>

definition parse_exponent :: "string \<Rightarrow> int option" where
  "parse_exponent s =
     (if s = [] then Some 0
      else if hd s = CHR ''e'' \<or> hd s = CHR ''E''
      then (let r = tl s;
                neg = (r \<noteq> [] \<and> hd r = CHR ''-'');
                ds = (if r \<noteq> [] \<and> (hd r = CHR ''+'' \<or> hd r = CHR ''-'') then tl r else r)
            in if ds \<noteq> [] \<and> list_all isDigit ds
               then Some (if neg then - digits_val ds else digits_val ds)
               else None)
      else None)"

text \<open>
  \<^verbatim>\<open>StrUnsignedDecimalLiteral\<close>: \<^verbatim>\<open>Infinity\<close>, or digits with an optional
  fraction and exponent, or a fraction that starts with the point.
\<close>

definition unsigned_decimal :: "string \<Rightarrow> jsnum" where
  "unsigned_decimal s =
     (if s = ''Infinity'' then PosInfinity
      else let ip = takeWhile isDigit s;
               r1 = dropWhile isDigit s;
               hasDot = (r1 \<noteq> [] \<and> hd r1 = CHR ''.'');
               fp = (if hasDot then takeWhile isDigit (tl r1) else []);
               r2 = (if hasDot then dropWhile isDigit (tl r1) else r1)
           in if ip = [] \<and> fp = [] then NaN
              else (case parse_exponent r2 of
                      None \<Rightarrow> NaN
                    | Some e \<Rightarrow>
                        to_double (literal_value (digits_val (ip @ fp)) (e - int (length fp)))))"

definition signed_decimal :: "string \<Rightarrow> jsnum" where
  "signed_decimal s =
     (if s \<noteq> [] \<and> hd s = CHR ''+'' then unsigned_decimal (tl s)
      else if s \<noteq> [] \<and> hd s = CHR ''-'' then negate (unsigned_decimal (tl s))
      else unsigned_decimal s)"

definition digit_in_base :: "int \<Rightarrow> char \<Rightarrow> int option" where
  "digit_in_base b c =
     (let v = (if isDigit c then Some (of_char c - 48)
               else if c \<in> set ''abcdef'' then Some (of_char c - 87)
               else if c \<in> set ''ABCDEF'' then Some (of_char c - 55)
               else None)
      in case v of None \<Rightarrow> None | Some n \<Rightarrow> if n < b then Some n else None)"

fun base_value :: "int \<Rightarrow> int \<Rightarrow> string \<Rightarrow> int option" where
  "base_value b acc [] = Some acc"
| "base_value b acc (c # cs) =
     (case digit_in_base b c of
        None \<Rightarrow> None
      | Some n \<Rightarrow> base_value b (b * acc + n) cs)"

text \<open>\<^verbatim>\<open>NonDecimalIntegerLiteral\<close>: \<^verbatim>\<open>0b\<close>, \<^verbatim>\<open>0o\<close> or \<^verbatim>\<open>0x\<close> and at least one digit.\<close>

definition non_decimal :: "string \<Rightarrow> int option" where
  "non_decimal s =
     (if length s < 3 \<or> hd s \<noteq> CHR ''0'' then None
      else let p = hd (tl s); ds = tl (tl s)
           in if p = CHR ''b'' \<or> p = CHR ''B'' then base_value 2 0 ds
              else if p = CHR ''o'' \<or> p = CHR ''O'' then base_value 8 0 ds
              else if p = CHR ''x'' \<or> p = CHR ''X'' then base_value 16 0 ds
              else None)"

text \<open>
  \<^verbatim>\<open>Number(value)\<close> on a string: white space is trimmed, the empty text is zero, and
  a text that is no numeric literal is not a number.
\<close>

definition Number :: "string \<Rightarrow> jsnum" where
  "Number s =
     (let t = trim s
      in if t = [] then Finite 0
         else (case non_decimal t of
                 Some n \<Rightarrow> to_double (of_int n)
               | None \<Rightarrow> signed_decimal t))"

text \<open>
  \<^verbatim>\<open>num >= 1\<close> and \<^verbatim>\<open>num <= 5\<close> on doubles: the double nearest to \<open>q\<close> is at
  least 1 from \<open>1 - 2\<^sup>-\<^sup>5\<^sup>4\<close> on, and at most 5 up to \<open>5 + 2\<^sup>-\<^sup>5\<^sup>1\<close>.
\<close>

fun ge_one :: "jsnum \<Rightarrow> bool" where
  "ge_one NaN = False"
| "ge_one PosInfinity = True"
| "ge_one NegInfinity = False"
| "ge_one (Finite q) = (1 - 1 / 2 ^ 54 \<le> q)"

fun le_five :: "jsnum \<Rightarrow> bool" where
  "le_five NaN = False"
| "le_five PosInfinity = False"
| "le_five NegInfinity = True"
| "le_five (Finite q) = (q \<le> 5 + 1 / 2 ^ 51)"

text \<open>
  Two library calls are parameters of the model: whether \<^verbatim>\<open>new URL(value)\<close> returns
  (rather than throws), and whether \<^verbatim>\<open>Date.parse(value)\<close> is not a number.
\<close>

record js_builtins =
  URL_parses :: "string \<Rightarrow> bool"
  Date_parse_isNaN :: "string \<Rightarrow> bool"

text \<open>\<^verbatim>\<open>/^[^\s@]+@[^\s@]+\.[^\s@]+$/.test(value)\<close>.\<close>

definition email_shape :: "string \<Rightarrow> bool" where
  "email_shape v =
     (let a = takeWhile (\<lambda>c. \<not> isWs c \<and> c \<noteq> CHR ''@'') v;
          r = dropWhile (\<lambda>c. \<not> isWs c \<and> c \<noteq> CHR ''@'') v
      in a \<noteq> [] \<and> r \<noteq> [] \<and> hd r = CHR ''@''
         \<and> list_all (\<lambda>c. \<not> isWs c \<and> c \<noteq> CHR ''@'') (tl r)
         \<and> CHR ''.'' \<in> set (tl (butlast (tl r))))"

text \<open>\<^verbatim>\<open>/^[\+]?[1-9][\d]{0,15}$/.test(value.replace(/[\s\-\(\)]/g, ''))\<close>.\<close>

definition phone_shape :: "string \<Rightarrow> bool" where
  "phone_shape v =
     (let s0 = filter (\<lambda>c. \<not> (isWs c \<or> c = CHR ''-'' \<or> c = CHR ''('' \<or> c = CHR '')'')) v;
          s = (if s0 \<noteq> [] \<and> hd s0 = CHR ''+'' then tl s0 else s0)
      in s \<noteq> [] \<and> hd s \<in> set ''123456789'' \<and> list_all isDigit (tl s) \<and> length (tl s) \<le> 15)"

text \<open>
  \<^verbatim>\<open>
  const fieldValidators = {
    SHORT_TEXT: (value: string) => value.trim().length > 0,
    LONG_TEXT: (value: string) => value.trim().length > 0,
    EMAIL: (value: string) => /^[^\s@]+@[^\s@]+\.[^\s@]+$/.test(value),
    PHONE: (value: string) => /^[\+]?[1-9][\d]{0,15}$/.test(value.replace(/[\s\-\(\)]/g, '')),
    NUMBER: (value: string) => !isNaN(Number(value)) && value.trim() !== '',
    URL: (value: string) => { try { new URL(value); return true; } catch { return false; } },
    DATE: (value: string) => !isNaN(Date.parse(value)),
    DROPDOWN: (value: string) => value.trim() !== '',
    RADIO: (value: string) => value.trim() !== '',
    CHECKBOX: (value: string) => value.trim() !== '',
    RATING: (value: string) => {
      const num = Number(value);
      return !isNaN(num) && num >= 1 && num <= 5;
    },
    FILE_UPLOAD: (value: string) => value.trim() !== '',
    SECTION: (value: string) => true, // Sections don't require validation
  };
  \<close>
\<close>

fun fieldValidators :: "js_builtins \<Rightarrow> field_type \<Rightarrow> string \<Rightarrow> bool" where
  "fieldValidators B SHORT_TEXT v = (length (trim v) > 0)"
| "fieldValidators B LONG_TEXT v = (length (trim v) > 0)"
| "fieldValidators B EMAIL v = email_shape v"
| "fieldValidators B PHONE v = phone_shape v"
| "fieldValidators B NUMBER v = (\<not> isNaN (Number v) \<and> trim v \<noteq> '''')"
| "fieldValidators B URL v = URL_parses B v"
| "fieldValidators B DATE v = (\<not> Date_parse_isNaN B v)"
| "fieldValidators B DROPDOWN v = (trim v \<noteq> '''')"
| "fieldValidators B RADIO v = (trim v \<noteq> '''')"
| "fieldValidators B CHECKBOX v = (trim v \<noteq> '''')"
| "fieldValidators B RATING v =
     (let num = Number v in \<not> isNaN num \<and> ge_one num \<and> le_five num)"
| "fieldValidators B FILE_UPLOAD v = (trim v \<noteq> '''')"
| "fieldValidators B SECTION v = True"


section \<open>The store\<close>

datatype form_status = DRAFT | PUBLISHED | ARCHIVED_FORM

text \<open>
  The settings bag of a form, read as \<^verbatim>\<open>form.settings as any || {}\<close>: a limit that may
  be absent, and the duplicate switch (absent counts as off).
\<close>

record form_settings =
  maxSubmissions :: "int option"
  preventDuplicates :: bool

record form =
  f_id :: string
  f_title :: string
  f_status :: form_status
  f_settings :: form_settings

record form_response =
  fr_id :: string
  fr_formId :: string
  fr_respondentEmail :: "string option"
  fr_ipAddress :: string
  fr_userAgent :: string
  fr_status :: response_status
  fr_submittedAt :: string

record response_field =
  rf_responseId :: string
  rf_fieldId :: string
  rf_value :: string

record db =
  db_form :: "form list"
  db_formField :: "form_field list"
  db_formResponse :: "form_response list"
  db_responseField :: "response_field list"

text \<open>
  \<^verbatim>\<open>findMany({ where: { formId }, orderBy: { order: 'asc' } })\<close>, also the
  \<^verbatim>\<open>fields\<close> include of a form: the form's fields by ascending order, fields of equal
  order in the store's order.
\<close>

definition fieldsOf :: "db \<Rightarrow> string \<Rightarrow> form_field list" where
  "fieldsOf d formId = sort_key ff_order (filter (\<lambda>f. ff_formId f = formId) (db_formField d))"

section \<open>Submission (submit route, POST)\<close>

text \<open>The body after \<^verbatim>\<open>submitFormSchema.parse\<close>.\<close>

record submitted_field =
  sf_fieldId :: string
  sf_value :: string

record submission =
  respondentEmail :: "string option"
  submittedFields :: "submitted_field list"

text \<open>
  What the request and the store contribute besides the body: the client address and
  agent read from the headers, the identifier and time the store gives a new response,
  and whether each of the two writes throws.
\<close>

record request_env =
  clientIP :: string
  userAgent :: string
  newResponseId :: string
  newSubmittedAt :: string
  createThrows :: bool
  createManyThrows :: bool

datatype submit_result =
  ErrorJson nat string "string list option"
  | Created string string

definition requiredMessage :: "form_field \<Rightarrow> string" where
  "requiredMessage field = ''Field '' @ [DQ] @ ff_label field @ [DQ] @ '' is required''"

definition invalidDataMessage :: "form_field \<Rightarrow> string" where
  "invalidDataMessage field = ''Field '' @ [DQ] @ ff_label field @ [DQ] @ '' contains invalid data''"

definition invalidOptionMessage :: "form_field \<Rightarrow> string \<Rightarrow> string" where
  "invalidOptionMessage field v =
     ''Field '' @ [DQ] @ ff_label field @ [DQ] @ '' contains invalid option: '' @ v"

text \<open>
  \<^verbatim>\<open>
  const requiredFields = form.fields.filter(field => field.required);
  const submittedFieldIds = new Set(validatedData.fields.map(f => f.fieldId));
  for (const field of requiredFields) {
    if (!submittedFieldIds.has(field.id)) {
      validationErrors.push(`Field "${field.label}" is required`);
      continue;
    }
    const submittedField = validatedData.fields.find(f => f.fieldId === field.id);
    if (!submittedField || submittedField.value.trim() === '') {
      validationErrors.push(`Field "${field.label}" is required`);
    }
  }
  \<close>
\<close>

definition requiredErrorsOf :: "submitted_field list \<Rightarrow> form_field \<Rightarrow> string list" where
  "requiredErrorsOf submitted field =
     (if ff_id field \<notin> set (map sf_fieldId submitted) then [requiredMessage field]
      else (case find (\<lambda>f. sf_fieldId f = ff_id field) submitted of
              None \<Rightarrow> [requiredMessage field]
            | Some submittedField \<Rightarrow>
                if trim (sf_value submittedField) = '''' then [requiredMessage field] else []))"

definition requiredErrors :: "form_field list \<Rightarrow> submitted_field list \<Rightarrow> string list" where
  "requiredErrors formFields submitted =
     concat (map (requiredErrorsOf submitted) (filter ff_required formFields))"

text \<open>\<^verbatim>\<open>new Map(form.fields.map(field => [field.id, field]))\<close>: a later field wins.\<close>

definition fieldMap :: "form_field list \<Rightarrow> (string \<rightharpoonup> form_field)" where
  "fieldMap formFields = fold (\<lambda>field m. m(ff_id field \<mapsto> field)) formFields Map.empty"

text \<open>
  \<^verbatim>\<open>
  const validator = fieldValidators[field.type as keyof typeof fieldValidators];
  if (validator && submittedField.value.trim() !== '' && !validator(submittedField.value)) {
    validationErrors.push(`Field "${field.label}" contains invalid data`);
  }
  \<close>
\<close>

definition typeErrorsOf :: "js_builtins \<Rightarrow> form_field \<Rightarrow> string \<Rightarrow> string list" where
  "typeErrorsOf B field v =
     (if trim v \<noteq> '''' \<and> \<not> fieldValidators B (ff_type field) v
      then [invalidDataMessage field] else [])"

text \<open>
  \<^verbatim>\<open>
  if ((field.type === 'DROPDOWN' || field.type === 'RADIO' || field.type === 'CHECKBOX') &&
      field.options && field.options.length > 0) {
    const validOptions = field.options;
    const submittedValues = submittedField.value.split(',').map(v => v.trim());
    for (const value of submittedValues) {
      if (value && !validOptions.includes(value)) {
        validationErrors.push(`Field "${field.label}" contains invalid option: ${value}`);
        break;
      }
    }
  }
  \<close>
\<close>

definition optionErrorsOf :: "form_field \<Rightarrow> string \<Rightarrow> string list" where
  "optionErrorsOf field v =
     (if (ff_type field = DROPDOWN \<or> ff_type field = RADIO \<or> ff_type field = CHECKBOX)
         \<and> length (ff_options field) > 0
      then (case find (\<lambda>x. x \<noteq> '''' \<and> x \<notin> set (ff_options field))
                      (map trim (split_on CHR '','' v)) of
              None \<Rightarrow> []
            | Some x \<Rightarrow> [invalidOptionMessage field x])
      else [])"

definition fieldErrorsOf ::
  "js_builtins \<Rightarrow> form_field list \<Rightarrow> submitted_field \<Rightarrow> string list" where
  "fieldErrorsOf B formFields submittedField =
     (case fieldMap formFields (sf_fieldId submittedField) of
        None \<Rightarrow> []
      | Some field \<Rightarrow>
          typeErrorsOf B field (sf_value submittedField)
          @ optionErrorsOf field (sf_value submittedField))"

text \<open>The list \<^verbatim>\<open>validationErrors\<close> when the two loops are done.\<close>

definition validationErrors ::
  "js_builtins \<Rightarrow> form_field list \<Rightarrow> submitted_field list \<Rightarrow> string list" where
  "validationErrors B formFields submitted =
     requiredErrors formFields submitted
     @ concat (map (fieldErrorsOf B formFields) submitted)"

text \<open>
  \<^verbatim>\<open>
  if (settings.maxSubmissions && settings.maxSubmissions > 0) {
    const responseCount = await db.formResponse.count({ where: { formId: params.id } });
    if (responseCount >= settings.maxSubmissions) { ... }
  }
  \<close>
\<close>

definition responseCount :: "db \<Rightarrow> string \<Rightarrow> int" where
  "responseCount d formId = int (length (filter (\<lambda>r. fr_formId r = formId) (db_formResponse d)))"

definition limitReached :: "db \<Rightarrow> string \<Rightarrow> form_settings \<Rightarrow> bool" where
  "limitReached d formId settings =
     (case maxSubmissions settings of
        None \<Rightarrow> False
      | Some m \<Rightarrow> m \<noteq> 0 \<and> m > 0 \<and> responseCount d formId \<ge> m)"

text \<open>
  \<^verbatim>\<open>
  if (settings.preventDuplicates && validatedData.respondentEmail) {
    const existingResponse = await db.formResponse.findFirst({
      where: { formId: params.id, respondentEmail: validatedData.respondentEmail } });
    if (existingResponse) { ... }
  }
  \<close>
\<close>

definition alreadySubmitted :: "db \<Rightarrow> string \<Rightarrow> form_settings \<Rightarrow> string option \<Rightarrow> bool" where
  "alreadySubmitted d formId settings email =
     (case email of
        None \<Rightarrow> False
      | Some e \<Rightarrow>
          preventDuplicates settings \<and> e \<noteq> ''''
          \<and> find (\<lambda>r. fr_formId r = formId \<and> fr_respondentEmail r = Some e) (db_formResponse d) \<noteq> None)"

definition newResponse :: "request_env \<Rightarrow> string \<Rightarrow> submission \<Rightarrow> form_response" where
  "newResponse env formId validatedData =
     \<lparr>fr_id = newResponseId env,
      fr_formId = formId,
      fr_respondentEmail =
        (case respondentEmail validatedData of None \<Rightarrow> None | Some e \<Rightarrow> if e = '''' then None else Some e),
      fr_ipAddress = clientIP env,
      fr_userAgent = userAgent env,
      fr_status = NEW,
      fr_submittedAt = newSubmittedAt env\<rparr>"

definition responseFieldsData :: "string \<Rightarrow> submitted_field list \<Rightarrow> response_field list" where
  "responseFieldsData responseId submitted =
     map (\<lambda>field. \<lparr>rf_responseId = responseId, rf_fieldId = sf_fieldId field,
                    rf_value = sf_value field\<rparr>)
       (filter (\<lambda>field. trim (sf_value field) \<noteq> '''') submitted)"

text \<open>
  \<^verbatim>\<open>formResponse.create\<close>, then \<^verbatim>\<open>responseField.createMany\<close> when there is data.
  The two writes are separate calls; a throw of either is caught by the handler's
  \<^verbatim>\<open>catch\<close> and answered with status 500.
\<close>

definition persist :: "request_env \<Rightarrow> db \<Rightarrow> string \<Rightarrow> submission \<Rightarrow> submit_result \<times> db" where
  "persist env d formId validatedData =
     (if createThrows env
      then (ErrorJson 500 ''Failed to submit form. Please try again later.'' None, d)
      else let response = newResponse env formId validatedData;
               d1 = d\<lparr>db_formResponse := db_formResponse d @ [response]\<rparr>;
               rows = responseFieldsData (fr_id response) (submittedFields validatedData)
           in if length rows > 0
              then (if createManyThrows env
                    then (ErrorJson 500 ''Failed to submit form. Please try again later.'' None, d1)
                    else (Created (fr_id response) (fr_submittedAt response),
                          d1\<lparr>db_responseField := db_responseField d1 @ rows\<rparr>))
              else (Created (fr_id response) (fr_submittedAt response), d1))"

text \<open>The handler, from the parsed body on; it returns the answer and the store.\<close>

definition POST_submit ::
  "js_builtins \<Rightarrow> request_env \<Rightarrow> db \<Rightarrow> string \<Rightarrow> submission \<Rightarrow> submit_result \<times> db" where
  "POST_submit B env d formId validatedData =
     (case find (\<lambda>f. f_id f = formId) (db_form d) of
        None \<Rightarrow> (ErrorJson 404 ''Form not found'' None, d)
      | Some form \<Rightarrow>
          if f_status form \<noteq> PUBLISHED
          then (ErrorJson 400 ''Form is not accepting submissions at this time'' None, d)
          else if limitReached d formId (f_settings form)
          then (ErrorJson 400 ''This form has reached its submission limit'' None, d)
          else let errors = validationErrors B (fieldsOf d formId) (submittedFields validatedData)
               in if length errors > 0
                  then (ErrorJson 400 ''Validation failed'' (Some errors), d)
                  else if alreadySubmitted d formId (f_settings form) (respondentEmail validatedData)
                  then (ErrorJson 400 ''You have already submitted this form'' None, d)
                  else persist env d formId validatedData)"

section \<open>Fields of a form: bulk update and deletion\<close>

datatype fields_result =
  FieldsError nat string
  | FieldsList "form_field list"
  | FieldsMessage string

text \<open>\<^verbatim>\<open>db.formField.update({ where: { id }, data: { order } })\<close> on the table.\<close>

definition updateOrder :: "string \<Rightarrow> int \<Rightarrow> form_field list \<Rightarrow> form_field list" where
  "updateOrder fieldId ord rows =
     map (\<lambda>r. if ff_id r = fieldId then r\<lparr>ff_order := ord\<rparr> else r) rows"

text \<open>
  \<^verbatim>\<open>db.$transaction(updatePromises)\<close>: the updates in their order; an update of a field
  that is not in the table throws, and then none of them is kept.
\<close>

definition transaction :: "(string \<times> int) list \<Rightarrow> form_field list \<Rightarrow> form_field list option" where
  "transaction updates rows =
     (if list_all (\<lambda>u. fst u \<in> set (map ff_id rows)) updates
      then Some (fold (\<lambda>u. updateOrder (fst u) (snd u)) updates rows)
      else None)"


text \<open>
  The deletion (part 011, DELETE):
  \<^verbatim>\<open>
  await db.formField.delete({ where: { id: params.fieldId } });
  const remainingFields = await db.formField.findMany({
    where: { formId: params.id }, orderBy: { order: 'asc' } });
  const updatePromises = remainingFields.map((field, index) =>
    db.formField.update({ where: { id: field.id }, data: { order: index } }));
  await db.$transaction(updatePromises);
  \<close>
  The values of the deleted field go with it (the store's cascade).
\<close>

definition enumerate_order :: "form_field list \<Rightarrow> (string \<times> int) list" where
  "enumerate_order remaining = map (\<lambda>(index, field). (ff_id field, int index)) (enumerate 0 remaining)"

definition DELETE_field :: "db \<Rightarrow> string \<Rightarrow> string \<Rightarrow> fields_result \<times> db" where
  "DELETE_field d formId fieldId =
     (case find (\<lambda>f. ff_id f = fieldId \<and> ff_formId f = formId) (db_formField d) of
        None \<Rightarrow> (FieldsError 404 ''Field not found'', d)
      | Some existingField \<Rightarrow>
          let d1 = d\<lparr>db_formField := filter (\<lambda>f. ff_id f \<noteq> fieldId) (db_formField d),
                     db_responseField := filter (\<lambda>v. rf_fieldId v \<noteq> fieldId) (db_responseField d)\<rparr>;
              remainingFields = fieldsOf d1 formId
          in (case transaction (enumerate_order remainingFields) (db_formField d1) of
                None \<Rightarrow> (FieldsError 500 ''Failed to delete form field'', d1)
              | Some rows \<Rightarrow> (FieldsMessage ''Field deleted successfully'', d1\<lparr>db_formField := rows\<rparr>)))"


text \<open>
  A row after a list of order updates was applied: the order is the last one the list
  gives for the row's identifier, if it gives any.
\<close>

definition reordered :: "(string \<times> int) list \<Rightarrow> form_field \<Rightarrow> form_field" where
  "reordered updates r =
     (case map_of (rev updates) (ff_id r) of
        None \<Rightarrow> r
      | Some ord \<Rightarrow> r\<lparr>ff_order := ord\<rparr>)"

section \<open>Sample data\<close>

text \<open>
  The values the examples below are computed on. The two library calls are fixed to
  reject every text; no sample value is of type URL or DATE.
\<close>

definition sample_builtins :: js_builtins where
  "sample_builtins = \<lparr>URL_parses = (\<lambda>v. False), Date_parse_isNaN = (\<lambda>v. True)\<rparr>"

definition sample_env :: request_env where
  "sample_env =
     \<lparr>clientIP = ''10.0.0.1'', userAgent = ''agent'', newResponseId = ''r2'',
      newSubmittedAt = ''2024-01-02T00:00:00.000Z'',
      createThrows = False, createManyThrows = False\<rparr>"

definition name_field :: form_field where
  "name_field =
     \<lparr>ff_id = ''name'', ff_formId = ''f1'', ff_type = SHORT_TEXT, ff_label = ''Name'',
      ff_required = True, ff_options = [], ff_order = 0\<rparr>"

definition plan_field :: form_field where
  "plan_field =
     \<lparr>ff_id = ''plan'', ff_formId = ''f1'', ff_type = DROPDOWN, ff_label = ''Plan'',
      ff_required = False, ff_options = [''Basic'', ''Pro''], ff_order = 1\<rparr>"

definition intro_field :: form_field where
  "intro_field =
     \<lparr>ff_id = ''intro'', ff_formId = ''f2'', ff_type = SECTION, ff_label = ''Intro'',
      ff_required = True, ff_options = [], ff_order = 0\<rparr>"

definition first_response :: form_response where
  "first_response =
     \<lparr>fr_id = ''r1'', fr_formId = ''f1'', fr_respondentEmail = Some ''a@b.com'',
      fr_ipAddress = ''10.0.0.9'', fr_userAgent = ''agent'', fr_status = NEW,
      fr_submittedAt = ''2024-01-01T00:00:00.000Z''\<rparr>"

text \<open>
  Three published forms: \<open>f1\<close> prevents duplicates and has one response; \<open>f2\<close> has a
  required section and no response; \<open>f3\<close> is limited to one response and has it.
\<close>

definition sample_db :: db where
  "sample_db =
     \<lparr>db_form =
        [\<lparr>f_id = ''f1'', f_title = ''Survey'', f_status = PUBLISHED,
          f_settings = \<lparr>maxSubmissions = None, preventDuplicates = True\<rparr>\<rparr>,
         \<lparr>f_id = ''f2'', f_title = ''Welcome'', f_status = PUBLISHED,
          f_settings = \<lparr>maxSubmissions = None, preventDuplicates = False\<rparr>\<rparr>,
         \<lparr>f_id = ''f3'', f_title = ''Raffle'', f_status = PUBLISHED,
          f_settings = \<lparr>maxSubmissions = Some 1, preventDuplicates = False\<rparr>\<rparr>],
      db_formField = [name_field, plan_field, intro_field],
      db_formResponse = [first_response, first_response\<lparr>fr_id := ''r0'', fr_formId := ''f3''\<rparr>],
      db_responseField =
        [\<lparr>rf_responseId = ''r1'', rf_fieldId = ''name'', rf_value = ''Ann''\<rparr>]\<rparr>"

definition submission_of :: "string option \<Rightarrow> (string \<times> string) list \<Rightarrow> submission" where
  "submission_of email entries =
     \<lparr>respondentEmail = email,
      submittedFields = map (\<lambda>(i, v). \<lparr>sf_fieldId = i, sf_value = v\<rparr>) entries\<rparr>"

definition quote_value :: string where
  "quote_value = ''Says '' @ [DQ] @ ''hi'' @ [DQ] @ '', bye''"

definition quote_response :: export_response where
  "quote_response =
     \<lparr>er_id = ''r1'', er_form = \<lparr>frm_id = ''f1'', frm_title = ''Survey''\<rparr>,
      er_respondentEmail = Some ''a@b.com'', er_status = NEW,
      er_submittedAt = ''2024-01-01T00:00:00.000Z'', er_ipAddress = None,
      er_fields =
        [\<lparr>ev_fieldId = ''q1'', ev_value = quote_value,
          ev_field = \<lparr>fld_id = ''q1'', fld_type = SHORT_TEXT, fld_label = ''Quote''\<rparr>\<rparr>]\<rparr>"

definition quote_field :: form_field where
  "quote_field =
     \<lparr>ff_id = ''q1'', ff_formId = ''f1'', ff_type = SHORT_TEXT, ff_label = ''Quote'',
      ff_required = False, ff_options = [], ff_order = 0\<rparr>"

definition sample_query :: export_query where
  "sample_query =
     \<lparr>q_format = Csv, q_dateRange = D30, q_includeMetadata = False, q_fieldDelimiter = '','',
      q_includeFieldTypes = False\<rparr>"


section \<open>Properties of the submission handler\<close>

text \<open>
  C5. A published form whose \<open>maxSubmissions\<close> is a positive integer that the number of
  its responses has reached answers every submission with the one submission-limit
  error: the answer carries no list of details, it does not depend on the submitted
  values, and the store is left as it was.
\<close>

theorem submission_limit_short_circuits:
  assumes "find (\<lambda>f. f_id f = formId) (db_form d) = Some form"
    and "f_status form = PUBLISHED"
    and "maxSubmissions (f_settings form) = Some m"
    and "0 < m"
    and "m \<le> responseCount d formId"
  shows "POST_submit B env d formId validatedData =
           (ErrorJson 400 ''This form has reached its submission limit'' None, d)"
  using assms by (simp add: POST_submit_def limitReached_def)

lemma find_f3:
  "find (\<lambda>f. f_id f = ''f3'') (db_form sample_db) =
     Some \<lparr>f_id = ''f3'', f_title = ''Raffle'', f_status = PUBLISHED,
            f_settings = \<lparr>maxSubmissions = Some 1, preventDuplicates = False\<rparr>\<rparr>"
  by (simp add: sample_db_def)

lemma count_f3: "(1::int) \<le> responseCount sample_db ''f3''"
  by (simp add: responseCount_def sample_db_def first_response_def)

theorem submission_limit_short_circuits_witness:
  "POST_submit sample_builtins sample_env sample_db ''f3''
     (submission_of None [(''name'', '''')]) =
     (ErrorJson 400 ''This form has reached its submission limit'' None, sample_db)"
  using submission_limit_short_circuits [where m = 1, OF find_f3 _ _ _ count_f3] by simp


lemma find_f1:
  "find (\<lambda>f. f_id f = ''f1'') (db_form sample_db) =
     Some \<lparr>f_id = ''f1'', f_title = ''Survey'', f_status = PUBLISHED,
            f_settings = \<lparr>maxSubmissions = None, preventDuplicates = True\<rparr>\<rparr>"
  by (simp add: sample_db_def)

lemma fieldsOf_f1: "fieldsOf sample_db ''f1'' = [name_field, plan_field]"
  by (simp add: fieldsOf_def sample_db_def name_field_def plan_field_def intro_field_def)

lemma trim_Bob: "trim ''Bob'' = ''Bob''"
  by (simp add: trim_def isWs_def)








text \<open>
  C2. The code departs from the claim: the required-field loop runs over every field
  whose \<open>required\<close> flag is set, whatever its type. Form \<open>f2\<close> has one field, a
  required section; the empty submission is rejected with a required-field error that
  names the section.
\<close>

theorem required_section_rejected:
  "POST_submit sample_builtins sample_env sample_db ''f2'' (submission_of None []) =
     (ErrorJson 400 ''Validation failed''
        (Some [''Field '' @ [DQ] @ ''Intro'' @ [DQ] @ '' is required'']), sample_db)
   \<and> ff_type intro_field = SECTION \<and> ff_required intro_field
   \<and> fieldsOf sample_db ''f2'' = [intro_field]"
proof -
  have fs: "fieldsOf sample_db ''f2'' = [intro_field]"
    by (simp add: fieldsOf_def sample_db_def name_field_def plan_field_def intro_field_def)
  have f2: "find (\<lambda>f. f_id f = ''f2'') (db_form sample_db) =
     Some \<lparr>f_id = ''f2'', f_title = ''Welcome'', f_status = PUBLISHED,
            f_settings = \<lparr>maxSubmissions = None, preventDuplicates = False\<rparr>\<rparr>"
    by (simp add: sample_db_def)
  have errs: "validationErrors sample_builtins [intro_field]
      (submittedFields (submission_of None [])) =
      [''Field '' @ [DQ] @ ''Intro'' @ [DQ] @ '' is required'']"
    by (simp add: validationErrors_def submission_of_def requiredErrors_def
        requiredErrorsOf_def intro_field_def requiredMessage_def)
  have "POST_submit sample_builtins sample_env sample_db ''f2'' (submission_of None []) =
     (ErrorJson 400 ''Validation failed''
        (Some [''Field '' @ [DQ] @ ''Intro'' @ [DQ] @ '' is required'']), sample_db)"
    using f2 fs errs by (simp add: POST_submit_def limitReached_def)
  then show ?thesis using fs by (simp add: intro_field_def)
qed

text \<open>
  The same for a section that is submitted with white space only, and in general: the
  error list of a required field that is left out does not depend on its type.
\<close>

lemma required_field_left_out:
  "ff_required field \<Longrightarrow> ff_id field \<notin> set (map sf_fieldId submitted) \<Longrightarrow>
   requiredErrors [field] submitted = [requiredMessage field]"
  by (simp add: requiredErrors_def requiredErrorsOf_def)

lemma required_field_blank:
  "ff_required field \<Longrightarrow> find (\<lambda>f. sf_fieldId f = ff_id field) submitted = Some s \<Longrightarrow>
   trim (sf_value s) = '''' \<Longrightarrow>
   requiredErrors [field] submitted = [requiredMessage field]"
  by (simp add: requiredErrors_def requiredErrorsOf_def)

text \<open>
  C6. The code departs from the claim: the response and its field values are written by
  two separate calls. When the second one throws, the answer is the status 500 and the
  store keeps the new response \<open>r2\<close> with none of its field values.
\<close>

theorem response_without_values:
  "POST_submit sample_builtins (sample_env\<lparr>createManyThrows := True\<rparr>) sample_db ''f1''
     (submission_of (Some ''c@d.com'') [(''name'', ''Bob'')]) =
     (ErrorJson 500 ''Failed to submit form. Please try again later.'' None,
      sample_db\<lparr>db_formResponse := db_formResponse sample_db @
        [\<lparr>fr_id = ''r2'', fr_formId = ''f1'', fr_respondentEmail = Some ''c@d.com'',
          fr_ipAddress = ''10.0.0.1'', fr_userAgent = ''agent'', fr_status = NEW,
          fr_submittedAt = ''2024-01-02T00:00:00.000Z''\<rparr>]\<rparr>)
   \<and> filter (\<lambda>v. rf_responseId v = ''r2'') (db_responseField sample_db) = []"
proof -
  have errs: "validationErrors sample_builtins (fieldsOf sample_db ''f1'')
     (submittedFields (submission_of (Some ''c@d.com'') [(''name'', ''Bob'')])) = []"
    by (simp add: validationErrors_def fieldsOf_f1 submission_of_def requiredErrors_def
      requiredErrorsOf_def fieldErrorsOf_def fieldMap_def typeErrorsOf_def optionErrorsOf_def
      name_field_def plan_field_def trim_Bob)
  have dup: "\<not> alreadySubmitted sample_db ''f1''
      \<lparr>maxSubmissions = None, preventDuplicates = True\<rparr>
      (respondentEmail (submission_of (Some ''c@d.com'') [(''name'', ''Bob'')]))"
    by (simp add: alreadySubmitted_def sample_db_def first_response_def submission_of_def)
  have per: "persist (sample_env\<lparr>createManyThrows := True\<rparr>) sample_db ''f1''
      (submission_of (Some ''c@d.com'') [(''name'', ''Bob'')]) =
     (ErrorJson 500 ''Failed to submit form. Please try again later.'' None,
      sample_db\<lparr>db_formResponse := db_formResponse sample_db @
        [\<lparr>fr_id = ''r2'', fr_formId = ''f1'', fr_respondentEmail = Some ''c@d.com'',
          fr_ipAddress = ''10.0.0.1'', fr_userAgent = ''agent'', fr_status = NEW,
          fr_submittedAt = ''2024-01-02T00:00:00.000Z''\<rparr>]\<rparr>)"
    by (simp add: persist_def sample_env_def newResponse_def submission_of_def
        responseFieldsData_def trim_Bob Let_def)
  have "POST_submit sample_builtins (sample_env\<lparr>createManyThrows := True\<rparr>) sample_db ''f1''
     (submission_of (Some ''c@d.com'') [(''name'', ''Bob'')]) =
     persist (sample_env\<lparr>createManyThrows := True\<rparr>) sample_db ''f1''
      (submission_of (Some ''c@d.com'') [(''name'', ''Bob'')])"
    using find_f1 errs dup by (simp add: POST_submit_def limitReached_def)
  then show ?thesis using per by (simp add: sample_db_def)
qed

text \<open>
  When neither write throws, both are made: the store gains the response and one value
  per submitted entry that is not blank.
\<close>

lemma persist_both:
  "\<not> createThrows env \<Longrightarrow> \<not> createManyThrows env \<Longrightarrow>
   persist env d formId validatedData =
     (Created (newResponseId env) (newSubmittedAt env),
      d\<lparr>db_formResponse := db_formResponse d @ [newResponse env formId validatedData],
        db_responseField := db_responseField d
          @ responseFieldsData (newResponseId env) (submittedFields validatedData)\<rparr>)"
  by (simp add: persist_def Let_def newResponse_def)

text \<open>
  When only the second write throws, the store gains the response and no value, whatever
  the form and the submission are.
\<close>

lemma persist_response_only:
  "\<not> createThrows env \<Longrightarrow> createManyThrows env \<Longrightarrow>
   responseFieldsData (newResponseId env) (submittedFields validatedData) \<noteq> [] \<Longrightarrow>
   persist env d formId validatedData =
     (ErrorJson 500 ''Failed to submit form. Please try again later.'' None,
      d\<lparr>db_formResponse := db_formResponse d @ [newResponse env formId validatedData]\<rparr>)"
  by (simp add: persist_def Let_def newResponse_def)

section \<open>Properties of the number validator\<close>

text \<open>
  C8, as the code has it. The number validator accepts a text exactly when the text is
  not blank and \<^verbatim>\<open>Number\<close> of it is not \<^verbatim>\<open>NaN\<close>, that is, when it is an infinity or
  a finite number.
\<close>

theorem number_validator_accepts_non_nan:
  "fieldValidators B NUMBER v =
     (trim v \<noteq> '''' \<and>
      (Number v = PosInfinity \<or> Number v = NegInfinity \<or> (\<exists>q. Number v = Finite q)))"
  by (cases "Number v") (auto simp add: isNaN_def)

text \<open>C8, as stated, fails: the text \<^verbatim>\<open>Infinity\<close> parses to an infinity and is accepted.\<close>

theorem number_validator_infinity_counterexample:
  "Number ''Infinity'' = PosInfinity \<and> fieldValidators sample_builtins NUMBER ''Infinity''"
  by (simp add: isNaN_def Number_def trim_def isWs_def non_decimal_def signed_decimal_def
      unsigned_decimal_def)


text \<open>Every non-empty text of decimal digits is accepted.\<close>

lemma trim_digits: "ds \<noteq> [] \<Longrightarrow> list_all isDigit ds \<Longrightarrow> trim ds = ds"
proof -
  assume ne: "ds \<noteq> []" and dg: "list_all isDigit ds"
  have nows: "\<not> isWs c" if "isDigit c" for c
    using that by (auto simp add: isDigit_def isWs_def)
  have h: "\<not> isWs (hd ds)" using ne dg nows by (cases ds) auto
  have l: "\<not> isWs (last ds)" using ne dg nows by (simp add: list_all_iff)
  have "dropWhile isWs ds = ds" using ne h by (cases ds) auto
  moreover have "dropWhile isWs (rev ds) = rev ds"
    using ne l by (cases "rev ds") (auto simp add: last_rev [symmetric] hd_rev)
  ultimately show ?thesis by (simp add: trim_def)
qed

lemma digits_accepted:
  assumes "ds \<noteq> []" "list_all isDigit ds"
  shows "fieldValidators B NUMBER ds"
proof -
  have t: "trim ds = ds" using assms by (rule trim_digits)
  have tw: "takeWhile isDigit ds = ds" "dropWhile isDigit ds = []"
    using assms(2) by (simp_all add: list_all_iff)
  have nd: "non_decimal ds = None"
  proof (cases "length ds < 3 \<or> hd ds \<noteq> CHR ''0''")
    case True
    then show ?thesis by (auto simp add: non_decimal_def)
  next
    case False
    then obtain a b cs where ds: "ds = a # b # cs" by (cases ds; cases "tl ds") auto
    with assms(2) have "isDigit b" by simp
    then have "b \<notin> set ''bBoOxX''" by (auto simp add: isDigit_def)
    then show ?thesis by (simp add: non_decimal_def ds Let_def)
  qed
  have hd: "hd ds \<noteq> CHR ''+''" "hd ds \<noteq> CHR ''-''"
    using assms by (cases ds; auto simp add: isDigit_def)+
  have inf: "ds \<noteq> ''Infinity''"
    using assms(2) by (auto simp add: isDigit_def)
  have "unsigned_decimal ds \<noteq> NaN"
    using assms(1) inf by (simp add: unsigned_decimal_def tw Let_def parse_exponent_def to_double_def)
  then have "Number ds \<noteq> NaN"
    using assms(1) hd by (simp add: Number_def t nd signed_decimal_def)
  then show ?thesis using assms(1) by (simp add: isNaN_def t)
qed

section \<open>Properties of the export\<close>




text \<open>
  The delimiter of the request does not reach the \<^verbatim>\<open>excel\<close> text at all.
\<close>

lemma excel_ignores_delimiter:
  "GET_export clock (q\<lparr>q_format := Excel, q_fieldDelimiter := d\<rparr>) rs =
   GET_export clock (q\<lparr>q_format := Excel\<rparr>) rs"
  by (simp add: GET_export_def)


text \<open>
  C4. The code departs from the claim: the escaping function tests for the comma, not for
  the configured delimiter. A value with a semicolon and no comma is returned as it is,
  and the row built for the delimiter \<^verbatim>\<open>;\<close> reads back as three cells instead of two.
\<close>

theorem semicolon_value_not_quoted:
  "escapeCsvValue ''a;b'' = ''a;b''
   \<and> join '';'' (map escapeCsvValue [''a;b'', ''c'']) = ''a;b;c''
   \<and> resplit_row CHR '';'' (join '';'' (map escapeCsvValue [''a;b'', ''c''])) = [''a'', ''b'', ''c'']"
  by (simp add: escapeCsvValue_def str_includes_def resplit_row_def)

text \<open>What the function does test: the comma, the quote and the line feed.\<close>

lemma escapeCsvValue_plain:
  "CHR '','' \<notin> set v \<Longrightarrow> DQ \<notin> set v \<Longrightarrow> LF \<notin> set v \<Longrightarrow> escapeCsvValue v = v"
  by (simp add: escapeCsvValue_def str_includes_def)

lemma escapeCsvValue_quotes:
  "CHR '','' \<in> set v \<or> DQ \<in> set v \<or> LF \<in> set v \<Longrightarrow>
   escapeCsvValue v = DQ # replace_quotes v @ [DQ]"
  by (auto simp add: escapeCsvValue_def str_includes_def)

text \<open>
  C1. The code departs from the claim: a field value passes through the escaping function
  twice, once when it is pushed into the row and once when the row is joined. The export
  of one response whose value is \<^verbatim>\<open>Says "hi", bye\<close>, read back with the comma, gives the
  header and a cell that is the value escaped once, not the value; the export of one form
  does the same.
\<close>

theorem quoted_value_escaped_twice:
  "map (resplit_row CHR '','') (split_on LF (generateCsv [quote_response] False '','')) =
     [[''Quote''], [[DQ] @ ''Says '' @ [DQ, DQ] @ ''hi'' @ [DQ, DQ] @ '', bye'' @ [DQ]]]
   \<and> resplit_row CHR '','' (formCsvRow sample_query [quote_field] quote_response) =
     [[DQ] @ ''Says '' @ [DQ, DQ] @ ''hi'' @ [DQ, DQ] @ '', bye'' @ [DQ]]
   \<and> escapeCsvValue quote_value = [DQ] @ ''Says '' @ [DQ, DQ] @ ''hi'' @ [DQ, DQ] @ '', bye'' @ [DQ]
   \<and> quote_value = ''Says '' @ [DQ] @ ''hi'' @ [DQ] @ '', bye''"
  by code_simp


section \<open>Properties of the field routes\<close>

lemma reordered_Cons:
  "reordered us (if ff_id r = fst u then r\<lparr>ff_order := snd u\<rparr> else r) = reordered (u # us) r"
  by (cases u) (simp add: reordered_def map_add_def split: option.splits)

lemma fold_updateOrder:
  "fold (\<lambda>u. updateOrder (fst u) (snd u)) us rows = map (reordered us) rows"
proof (induction us arbitrary: rows)
  case Nil
  then show ?case by (simp add: reordered_def)
next
  case (Cons u us)
  have "fold (\<lambda>u. updateOrder (fst u) (snd u)) (u # us) rows =
        map (reordered us) (updateOrder (fst u) (snd u) rows)"
    using Cons.IH by simp
  also have "\<dots> = map (reordered (u # us)) rows"
    by (simp add: updateOrder_def reordered_Cons)
  finally show ?case .
qed

lemma reordered_id [simp]: "ff_id (reordered us r) = ff_id r"
  by (simp add: reordered_def split: option.splits)

lemma reordered_formId [simp]: "ff_formId (reordered us r) = ff_formId r"
  by (simp add: reordered_def split: option.splits)

lemma enumerate_order_zip:
  "enumerate_order rem = zip (map ff_id rem) (map int [0..<length rem])"
  unfolding enumerate_order_def enumerate_eq_zip
  by (rule nth_equalityI) simp_all






lemma transaction_enumerate:
  assumes "set rem \<subseteq> set rows"
  shows "transaction (enumerate_order rem) rows =
           Some (map (reordered (enumerate_order rem)) rows)"
proof -
  have "fst u \<in> set (map ff_id rows)" if "u \<in> set (enumerate_order rem)" for u
  proof -
    obtain a b where u: "u = (a, b)" by (cases u)
    with that have "(a, b) \<in> set (zip (map ff_id rem) (map int [0..<length rem]))"
      by (simp add: enumerate_order_zip)
    then have "a \<in> set (map ff_id rem)" by (rule set_zip_leftD)
    with u assms show ?thesis by auto
  qed
  then show ?thesis
    by (simp add: transaction_def fold_updateOrder list_all_iff)
qed

lemma DELETE_field_found:
  assumes "find (\<lambda>f. ff_id f = fieldId \<and> ff_formId f = formId) (db_formField d) = Some e"
  shows "DELETE_field d formId fieldId =
     (FieldsMessage ''Field deleted successfully'',
      d\<lparr>db_formField :=
           map (reordered (enumerate_order
                  (sort_key ff_order
                     (filter (\<lambda>f. ff_formId f = formId)
                        (filter (\<lambda>f. ff_id f \<noteq> fieldId) (db_formField d))))))
             (filter (\<lambda>f. ff_id f \<noteq> fieldId) (db_formField d)),
         db_responseField := filter (\<lambda>v. rf_fieldId v \<noteq> fieldId) (db_responseField d)\<rparr>)"
proof -
  let ?rows1 = "filter (\<lambda>f. ff_id f \<noteq> fieldId) (db_formField d)"
  let ?rem = "sort_key ff_order (filter (\<lambda>f. ff_formId f = formId) ?rows1)"
  have "set ?rem \<subseteq> set ?rows1" by auto
  then have "transaction (enumerate_order ?rem) ?rows1 =
      Some (map (reordered (enumerate_order ?rem)) ?rows1)"
    by (rule transaction_enumerate)
  then show ?thesis
    using assms by (simp add: DELETE_field_def fieldsOf_def Let_def)
qed




lemma find_name_field:
  "find (\<lambda>f. ff_id f = ''name'' \<and> ff_formId f = ''f1'') (db_formField sample_db) =
     Some name_field"
  by (simp add: sample_db_def name_field_def)




text \<open>
  What the renumbering gives on the sample: after the field \<open>name\<close> of \<open>f1\<close> is deleted,
  the field \<open>plan\<close>, whose order was 1, is the only field left and has order 0.
\<close>

lemma delete_sample_orders:
  "map (\<lambda>f. (ff_id f, ff_order f)) (fieldsOf (snd (DELETE_field sample_db ''f1'' ''name'')) ''f1'') =
     [(''plan'', 0)]"
  unfolding DELETE_field_found [OF find_name_field]
  by (simp add: fieldsOf_def sample_db_def name_field_def plan_field_def intro_field_def
      enumerate_order_def reordered_def)



section \<open>Reading back a row that was escaped once\<close>

text \<open>
  The reader of rows inverts the escaping function for the comma: a row of cells, each
  escaped once and joined by commas, reads back as the cells. This is what holds for the
  cells of a row as they are pushed.
\<close>

lemma resplit_plain:
  "d \<notin> set v \<Longrightarrow> resplit d Plain acc (v @ rest) = resplit d Plain (rev v @ acc) rest"
  by (induction v arbitrary: acc) auto

lemma resplit_plain_end:
  "rest = [] \<or> hd rest = d \<Longrightarrow>
   resplit d Plain acc rest =
     rev acc # (if rest = [] then [] else resplit d AtStart [] (tl rest))"
  by (cases rest) auto

lemma resplit_quoted:
  "rest = [] \<or> hd rest \<noteq> DQ \<Longrightarrow>
   resplit d Quoted acc (replace_quotes v @ DQ # rest) = resplit d Plain (rev v @ acc) rest"
proof (induction v arbitrary: acc)
  case Nil
  then show ?case by (cases rest) auto
next
  case (Cons c cs)
  show ?case
  proof (cases "c = DQ")
    case True
    then show ?thesis using Cons by simp
  next
    case False
    obtain c' cs' where tail: "replace_quotes cs @ DQ # rest = c' # cs'"
      by (cases "replace_quotes cs @ DQ # rest") auto
    have "resplit d Quoted acc (replace_quotes (c # cs) @ DQ # rest) =
          resplit d Quoted (c # acc) (replace_quotes cs @ DQ # rest)"
      using False by (simp add: tail)
    then show ?thesis using Cons by simp
  qed
qed

lemma resplit_cell:
  assumes "rest = [] \<or> hd rest = CHR '',''"
  shows "resplit CHR '','' AtStart [] (escapeCsvValue v @ rest) =
           v # (if rest = [] then [] else resplit CHR '','' AtStart [] (tl rest))"
proof (cases "CHR '','' \<in> set v \<or> DQ \<in> set v \<or> LF \<in> set v")
  case True
  have "resplit CHR '','' AtStart [] (escapeCsvValue v @ rest) =
        resplit CHR '','' Quoted [] (replace_quotes v @ DQ # rest)"
    using True by (auto simp add: escapeCsvValue_def str_includes_def)
  also have "\<dots> = resplit CHR '','' Plain (rev v @ []) rest"
    using assms by (intro resplit_quoted) auto
  finally show ?thesis
    using assms by (simp add: resplit_plain_end)
next
  case False
  then have esc: "escapeCsvValue v = v"
    by (simp add: escapeCsvValue_def str_includes_def)
  show ?thesis
  proof (cases v)
    case Nil
    then show ?thesis using assms esc by (cases rest) auto
  next
    case (Cons c cs)
    have "resplit CHR '','' AtStart [] (v @ rest) = resplit CHR '','' Plain [c] (cs @ rest)"
      using False Cons by auto
    also have "\<dots> = resplit CHR '','' Plain (rev cs @ [c]) rest"
      using False Cons by (intro resplit_plain) auto
    finally show ?thesis
      using assms esc Cons by (simp add: resplit_plain_end)
  qed
qed

lemma resplit_join:
  "cells \<noteq> [] \<Longrightarrow>
   resplit_row CHR '','' (join '','' (map escapeCsvValue cells)) = cells"
proof (induction cells rule: induct_list012)
  case 1
  then show ?case by simp
next
  case (2 x)
  show ?case
    using resplit_cell [of "[]" x] by (simp add: resplit_row_def)
next
  case (3 x y zs)
  have "resplit CHR '','' AtStart [] (escapeCsvValue x @ '','' @ join '','' (map escapeCsvValue (y # zs))) =
        x # resplit CHR '','' AtStart [] (join '','' (map escapeCsvValue (y # zs)))"
    using resplit_cell [of "'','' @ join '','' (map escapeCsvValue (y # zs))" x] by simp
  then show ?case
    using 3 by (simp add: resplit_row_def)
qed

text \<open>
  So a row of either export, built for the comma, reads back as the cells that were
  pushed: the metadata values themselves, and each field value escaped once.
\<close>

lemma resplit_csvRow:
  "csvRowCells includeMetadata labels r \<noteq> [] \<Longrightarrow>
   resplit_row CHR '','' (csvRow includeMetadata '','' labels r) =
     csvRowCells includeMetadata labels r"
  by (simp add: csvRow_def resplit_join)

lemma resplit_formCsvRow:
  "formCsvRowCells options formFields r \<noteq> [] \<Longrightarrow> q_fieldDelimiter options = '','' \<Longrightarrow>
   resplit_row CHR '','' (formCsvRow options formFields r) =
     formCsvRowCells options formFields r"
  by (simp add: formCsvRow_def resplit_join)

lemma escapeCsvValue_fixed_iff:
  "escapeCsvValue v = v \<longleftrightarrow> CHR '','' \<notin> set v \<and> DQ \<notin> set v \<and> LF \<notin> set v"
proof -
  have "DQ # replace_quotes v @ [DQ] \<noteq> v"
  proof
    assume "DQ # replace_quotes v @ [DQ] = v"
    then have "length (DQ # replace_quotes v @ [DQ]) = length v" by simp
    moreover have "length v \<le> length (replace_quotes v)"
      by (induction v) auto
    ultimately show False by simp
  qed
  then show ?thesis
    by (auto simp add: escapeCsvValue_def str_includes_def)
qed


end
